theory Spec2Isabelle
  imports Complex_Main "HOL-Library.AList"
begin

section \<open>Insertion-ordered maps\<close>

text \<open>
  The engines keep their records in JavaScript \<^verbatim>\<open>Map\<close> objects. A \<^verbatim>\<open>Map\<close> iterates
  its keys in insertion order; \<^verbatim>\<open>set\<close> on a key that is present replaces the value and
  keeps the key's position, on a new key it adds the entry at the end; \<^verbatim>\<open>delete\<close>
  removes the entry. The model is an association list in insertion order with pairwise
  distinct keys.
\<close>

type_synonym ('k, 'v) jsmap = "('k \<times> 'v) list"

definition mapWf :: "('k, 'v) jsmap \<Rightarrow> bool" where
  "mapWf m = distinct (map fst m)"

definition mapGet :: "('k, 'v) jsmap \<Rightarrow> 'k \<Rightarrow> 'v option" where
  "mapGet m k = map_of m k"

definition mapHas :: "('k, 'v) jsmap \<Rightarrow> 'k \<Rightarrow> bool" where
  "mapHas m k = (map_of m k \<noteq> None)"

definition mapSet :: "'k \<Rightarrow> 'v \<Rightarrow> ('k, 'v) jsmap \<Rightarrow> ('k, 'v) jsmap" where
  "mapSet k v m = AList.update k v m"

definition mapDelete :: "'k \<Rightarrow> ('k, 'v) jsmap \<Rightarrow> ('k, 'v) jsmap" where
  "mapDelete k m = AList.delete k m"

definition mapSize :: "('k, 'v) jsmap \<Rightarrow> nat" where
  "mapSize m = length m"

definition mapKeys :: "('k, 'v) jsmap \<Rightarrow> 'k list" where
  "mapKeys m = map fst m"

definition mapValues :: "('k, 'v) jsmap \<Rightarrow> 'v list" where
  "mapValues m = map snd m"

text \<open>
  \<^verbatim>\<open>m.delete(m.keys().next().value)\<close>: the first key of the iteration is deleted. On an
  empty map the key is \<^verbatim>\<open>undefined\<close> and \<^verbatim>\<open>delete\<close> removes nothing.
\<close>

definition mapDeleteFirstKey :: "('k, 'v) jsmap \<Rightarrow> ('k, 'v) jsmap" where
  "mapDeleteFirstKey m = (case mapKeys m of [] \<Rightarrow> m | firstKey # _ \<Rightarrow> mapDelete firstKey m)"

text \<open>
  The three bounded stores share one sequence of statements:
  \<^verbatim>\<open>store.set(id, record); if (store.size > max) { store.delete(firstKey) }\<close>.
\<close>

definition storeRecord :: "nat \<Rightarrow> 'k \<Rightarrow> 'v \<Rightarrow> ('k, 'v) jsmap \<Rightarrow> ('k, 'v) jsmap" where
  "storeRecord maxSize k v m =
     (let m' = mapSet k v m
      in if mapSize m' > maxSize then mapDeleteFirstKey m' else m')"


section \<open>Strings\<close>

text \<open>\<^verbatim>\<open>String.prototype.includes\<close>: the needle occurs as a contiguous substring.\<close>

fun startsWith :: "string \<Rightarrow> string \<Rightarrow> bool" where
  "startsWith _ [] = True"
| "startsWith [] (c # cs) = False"
| "startsWith (x # xs) (c # cs) = (x = c \<and> startsWith xs cs)"

fun includesStr :: "string \<Rightarrow> string \<Rightarrow> bool" where
  "includesStr [] needle = (needle = [])"
| "includesStr (x # xs) needle = (startsWith (x # xs) needle \<or> includesStr xs needle)"

section \<open>Deployment engine (src/lib/deployers/deployment-engine.ts)\<close>

record DeploymentConfig =
  projectName :: string
  projectId :: string
  target :: string
  files :: "(string, string) jsmap"
  environment :: "(string \<times> string) list option"
  buildCommand :: "string option"
  startCommand :: "string option"

record DeploymentResult =
  success :: bool
  url :: "string option"
  deploymentId :: "string option"
  logs :: "string option"
  timestamp :: int
  duration :: int

text \<open>
  The engine object: the two tokens given to the constructor (the empty string when the
  environment variable is not set) and the store of results. \<^verbatim>\<open>maxDeployments\<close> is a
  read-only field initialised to 5000.
\<close>

record DeploymentEngine =
  vercelToken :: string
  githubToken :: string
  deployments :: "(string, DeploymentResult) jsmap"

definition maxDeployments :: nat where
  "maxDeployments = 5000"

text \<open>
  What one call of \<^verbatim>\<open>deploy\<close> reads from outside the engine: the identifier drawn by
  \<^verbatim>\<open>generateDeploymentId\<close>, the readings of the clock, the outcome of every shell command
  (\<^verbatim>\<open>execSync\<close>, with its working directory) and of the two HTTP requests, and the
  runtime's \<^verbatim>\<open>toLowerCase\<close> and \<^verbatim>\<open>trim\<close>. An external step either throws (\<open>Inl\<close> of the
  exception's message) or returns. The request to Vercel answers with \<^verbatim>\<open>data.url\<close> and
  \<^verbatim>\<open>data.id\<close>, the one to GitHub with \<^verbatim>\<open>data.html_url\<close>, \<^verbatim>\<open>data.id\<close> and
  \<^verbatim>\<open>data.clone_url\<close>. Events are emitted to listeners outside the engine and change
  nothing in it; they are not part of the state.
\<close>

record DeployWorld =
  newDeploymentId :: string
  startTime :: int
  innerNow :: int
  durationNow :: int
  timestampNow :: int
  catchTimestampNow :: int
  catchDurationNow :: int
  execSync :: "string \<Rightarrow> string option \<Rightarrow> string + string"
  vercelPost :: "DeploymentConfig \<Rightarrow> string \<Rightarrow> string + (string \<times> string)"
  githubPost :: "DeploymentConfig \<Rightarrow> string \<Rightarrow> string + (string \<times> string \<times> string)"
  toLowerCase :: "string \<Rightarrow> string"
  trim :: "string \<Rightarrow> string"

text \<open>Sequencing inside a \<^verbatim>\<open>try\<close> block: the first exception ends the block.\<close>

definition andThen :: "string + 'a \<Rightarrow> ('a \<Rightarrow> string + 'b) \<Rightarrow> string + 'b" where
  "andThen step rest = (case step of Inl thrown \<Rightarrow> Inl thrown | Inr value \<Rightarrow> rest value)"

text \<open>
  \<^verbatim>\<open>s.lastIndexOf(c)\<close> is \<open>-1\<close> when \<open>c\<close> does not occur; \<^verbatim>\<open>s.substring(0, n)\<close> takes a
  negative \<open>n\<close> as 0.
\<close>

fun lastIndexOf :: "string \<Rightarrow> char \<Rightarrow> int" where
  "lastIndexOf [] c = -1"
| "lastIndexOf (x # xs) c =
     (if lastIndexOf xs c \<ge> 0 then 1 + lastIndexOf xs c
      else if x = c then 0 else -1)"

definition substringTo :: "string \<Rightarrow> int \<Rightarrow> string" where
  "substringTo s n = take (nat n) s"

text \<open>\<^verbatim>\<open>content.replace(/'/g, "'\\''")\<close>: every single quote becomes the four characters
  quote, backslash, quote, quote.\<close>

definition escapeQuotes :: "string \<Rightarrow> string" where
  "escapeQuotes content =
     concat (map (\<lambda>c. if c = CHR 0x27 then [CHR 0x27, CHR 0x5C, CHR 0x27, CHR 0x27] else [c])
               content)"

text \<open>The loop of \<^verbatim>\<open>createProjectFiles\<close> over the files, in the order of the map.\<close>

fun writeProjectFiles :: "DeployWorld \<Rightarrow> string \<Rightarrow> (string, string) jsmap \<Rightarrow> string + unit" where
  "writeProjectFiles w projectPath [] = Inr ()"
| "writeProjectFiles w projectPath ((filePath, content) # rest) =
     (let fullPath = projectPath @ ''/'' @ filePath;
          dirPath = substringTo fullPath (lastIndexOf fullPath (CHR ''/''))
      in andThen (execSync w (''mkdir -p '' @ dirPath) None) (\<lambda>_.
         andThen (execSync w (''echo '' @ [CHR 0x27] @ escapeQuotes content @ [CHR 0x27]
                               @ '' > '' @ fullPath) None) (\<lambda>_.
         writeProjectFiles w projectPath rest)))"

definition createProjectFiles :: "DeployWorld \<Rightarrow> string \<Rightarrow> (string, string) jsmap \<Rightarrow> string + unit" where
  "createProjectFiles w projectPath fs =
     andThen (execSync w (''mkdir -p '' @ projectPath) None) (\<lambda>_.
     writeProjectFiles w projectPath fs)"

definition failedResult :: "DeployWorld \<Rightarrow> string \<Rightarrow> DeploymentResult" where
  "failedResult w msg =
     \<lparr>success = False, url = None, deploymentId = None, logs = Some msg,
      timestamp = innerNow w, duration = 0\<rparr>"

text \<open>
  Each of the four target procedures is one \<^verbatim>\<open>try\<close> block whose \<^verbatim>\<open>catch\<close> turns the
  exception into a failed result; none of them throws.
\<close>

definition deployToVercel :: "DeploymentEngine \<Rightarrow> DeployWorld \<Rightarrow> DeploymentConfig \<Rightarrow> DeploymentResult" where
  "deployToVercel eng w config =
     (if vercelToken eng = [] then failedResult w ''Vercel token not configured''
      else
        (case
           andThen (createProjectFiles w (''/tmp/'' @ projectName config) (files config)) (\<lambda>_.
           andThen (vercelPost w config (vercelToken eng)) (\<lambda>(dataUrl, dataId).
             (let deploymentUrl = ''https://'' @ dataUrl
              in Inr \<lparr>success = True, url = Some deploymentUrl, deploymentId = Some dataId,
                      logs = Some (''Deployed to '' @ deploymentUrl),
                      timestamp = innerNow w, duration = 0\<rparr>)))
         of
           Inr result \<Rightarrow> result
         | Inl msg \<Rightarrow> failedResult w (''Vercel deployment failed: '' @ msg)))"

definition deployToGitHub :: "DeploymentEngine \<Rightarrow> DeployWorld \<Rightarrow> DeploymentConfig \<Rightarrow> DeploymentResult" where
  "deployToGitHub eng w config =
     (if githubToken eng = [] then failedResult w ''GitHub token not configured''
      else
        (let projectPath = ''/tmp/'' @ projectName config
         in case
              andThen (createProjectFiles w projectPath (files config)) (\<lambda>_.
              andThen (execSync w ''git init'' (Some projectPath)) (\<lambda>_.
              andThen (execSync w ''git add .'' (Some projectPath)) (\<lambda>_.
              andThen (execSync w (''git commit -m '' @ [CHR 0x22]
                                    @ ''Initial commit from ULTRABUILD'' @ [CHR 0x22])
                         (Some projectPath)) (\<lambda>_.
              andThen (githubPost w config (githubToken eng)) (\<lambda>(repoUrl, dataId, cloneUrl).
              andThen (execSync w (''git remote add origin '' @ cloneUrl) (Some projectPath)) (\<lambda>_.
              andThen (execSync w ''git push -u origin main'' (Some projectPath)) (\<lambda>_.
                Inr \<lparr>success = True, url = Some repoUrl, deploymentId = Some dataId,
                     logs = Some (''Repository created at '' @ repoUrl),
                     timestamp = innerNow w, duration = 0\<rparr>)))))))
            of
              Inr result \<Rightarrow> result
            | Inl msg \<Rightarrow> failedResult w (''GitHub deployment failed: '' @ msg)))"

definition deployToDocker :: "DeployWorld \<Rightarrow> DeploymentConfig \<Rightarrow> DeploymentResult" where
  "deployToDocker w config =
     (let projectPath = ''/tmp/'' @ projectName config
      in case
           andThen (createProjectFiles w projectPath (files config)) (\<lambda>_.
             (let imageName = toLowerCase w (projectName config) @ '':latest''
              in andThen (execSync w (''docker build -t '' @ imageName @ '' .'')
                            (Some projectPath)) (\<lambda>_.
                 andThen (execSync w (''docker run -d -p 3000:3000 '' @ imageName)
                            (Some projectPath)) (\<lambda>output.
                   (let containerId = trim w output
                    in Inr \<lparr>success = True, url = Some ''http://localhost:3000'',
                            deploymentId = Some containerId,
                            logs = Some (''Docker container running: '' @ containerId),
                            timestamp = innerNow w, duration = 0\<rparr>)))))
         of
           Inr result \<Rightarrow> result
         | Inl msg \<Rightarrow> failedResult w (''Docker deployment failed: '' @ msg))"

definition deployToAWS :: "DeployWorld \<Rightarrow> DeploymentConfig \<Rightarrow> DeploymentResult" where
  "deployToAWS w config =
     (case
        andThen (createProjectFiles w (''/tmp/'' @ projectName config) (files config)) (\<lambda>_.
          Inr \<lparr>success = True, url = Some ''https://your-app.elasticbeanstalk.com'',
               deploymentId = None,
               logs = Some ''AWS deployment configured. Use 'eb create' to deploy.'',
               timestamp = innerNow w, duration = 0\<rparr>)
      of
        Inr result \<Rightarrow> result
      | Inl msg \<Rightarrow> failedResult w (''AWS deployment failed: '' @ msg))"

text \<open>
  The \<^verbatim>\<open>switch\<close> of \<^verbatim>\<open>deploy\<close>. The target is a string at run time; the \<^verbatim>\<open>default\<close>
  branch throws \<^verbatim>\<open>Error("Unknown deployment target: ...")\<close>, here \<open>Inl\<close> of the message.
\<close>

definition dispatchTarget :: "DeploymentEngine \<Rightarrow> DeployWorld \<Rightarrow> DeploymentConfig \<Rightarrow> string + DeploymentResult" where
  "dispatchTarget eng w config =
     (if target config = ''vercel'' then Inr (deployToVercel eng w config)
      else if target config = ''github'' then Inr (deployToGitHub eng w config)
      else if target config = ''docker'' then Inr (deployToDocker w config)
      else if target config = ''aws'' then Inr (deployToAWS w config)
      else Inl (''Unknown deployment target: '' @ target config))"

text \<open>
  \<^verbatim>\<open>deploy\<close>: the body of the \<^verbatim>\<open>try\<close> stamps the result, stores it and returns it; the
  \<^verbatim>\<open>catch\<close> builds a failed result from the exception's message and returns it without
  touching the store. The returned pair is the result and the engine after the call.
\<close>

definition deploy :: "DeploymentEngine \<Rightarrow> DeployWorld \<Rightarrow> DeploymentConfig \<Rightarrow> DeploymentResult \<times> DeploymentEngine" where
  "deploy eng w config =
     (case dispatchTarget eng w config of
        Inr result0 \<Rightarrow>
          (let result = result0\<lparr>duration := durationNow w - startTime w, timestamp := timestampNow w\<rparr>
           in (result,
               eng\<lparr>deployments := storeRecord maxDeployments (newDeploymentId w) result (deployments eng)\<rparr>))
      | Inl message \<Rightarrow>
          (\<lparr>success = False, url = None, deploymentId = None, logs = Some message,
            timestamp = catchTimestampNow w, duration = catchDurationNow w - startTime w\<rparr>,
           eng))"

text \<open>
  JavaScript numbers that \<^verbatim>\<open>getStatus\<close> computes with. Division by zero does not fail:
  \<^verbatim>\<open>0 / 0\<close> is \<^verbatim>\<open>NaN\<close> and \<^verbatim>\<open>x / 0\<close> is \<^verbatim>\<open>Infinity\<close> for positive \<open>x\<close>. Finite values are
  exact reals here; the rounding of IEEE doubles is not modelled.
\<close>

datatype jsnum = NaN | Infinity | Num real

definition jsDivide :: "nat \<Rightarrow> nat \<Rightarrow> jsnum" where
  "jsDivide a b = (if b = 0 then (if a = 0 then NaN else Infinity) else Num (real a / real b))"

fun jsTimes :: "jsnum \<Rightarrow> real \<Rightarrow> jsnum" where
  "jsTimes NaN c = NaN"
| "jsTimes Infinity c = (if c = 0 then NaN else Infinity)"
| "jsTimes (Num r) c = Num (r * c)"

text \<open>\<^verbatim>\<open>x || y\<close> on numbers: \<^verbatim>\<open>NaN\<close> and \<^verbatim>\<open>0\<close> are falsy.\<close>

fun jsOr :: "jsnum \<Rightarrow> jsnum \<Rightarrow> jsnum" where
  "jsOr NaN y = y"
| "jsOr Infinity y = Infinity"
| "jsOr (Num r) y = (if r = 0 then y else Num r)"

record DeploymentStatus =
  totalDeployments :: nat
  successful :: nat
  failed :: int
  successRate :: jsnum

definition getStatus :: "DeploymentEngine \<Rightarrow> DeploymentStatus" where
  "getStatus eng =
     (let successful = length (filter success (mapValues (deployments eng)));
          failed = int (mapSize (deployments eng)) - int successful
      in \<lparr>totalDeployments = mapSize (deployments eng),
          successful = successful,
          failed = failed,
          successRate = jsOr (jsTimes (jsDivide successful (mapSize (deployments eng))) 100) (Num 0)\<rparr>)"

section \<open>Project generator (src/unnamed/part_001, class ULTRABUILDEngine)\<close>

record TechStack =
  frontend :: "string list option"
  backend :: "string list option"
  database :: "string list option"
  deployment :: "string list option"
  tools :: "string list option"
  libraries :: "string list option"

record Constraints =
  budget :: "string option"
  timeline :: "string option"
  scalability :: "string option"
  performance :: "string option"

record ProjectRequirement =
  name :: string
  description :: string
  type :: string
  features :: "string list"
  constraints :: "Constraints option"

text \<open>
  The analysis object. The code reads only its \<^verbatim>\<open>complexity\<close>; \<open>None\<close> stands for a
  missing (\<^verbatim>\<open>undefined\<close>) field.
\<close>

record Analysis =
  complexity :: "string option"
  analysisFeatures :: "string list"
  estimatedFiles :: int
  estimatedLines :: int

text \<open>The catalog's entry \<^verbatim>\<open>other\<close>, which is also the fallback of the lookup.\<close>

definition otherTemplate :: TechStack where
  "otherTemplate =
     \<lparr>frontend = Some [''React'', ''Vue'', ''Svelte''],
      backend = Some [''Node.js'', ''Python'', ''Go''],
      database = Some [''Supabase (free)'', ''PostgreSQL (free)''],
      deployment = Some [''Vercel'', ''Railway (free)''],
      tools = Some [''Vite'', ''Webpack''],
      libraries = Some [''TypeScript'', ''ESLint'', ''Prettier'']\<rparr>"

definition techStackTemplates :: "(string \<times> TechStack) list" where
  "techStackTemplates =
    [(''game'',
      \<lparr>frontend = Some [''Phaser 3'', ''Three.js'', ''Babylon.js''],
       backend = Some [''Node.js'', ''Express''],
       database = Some [''Supabase (free)'', ''Firebase (free)''],
       deployment = Some [''Vercel'', ''GitHub Pages''],
       tools = Some [''Webpack'', ''Vite''],
       libraries = Some [''Pixi.js'', ''Konva.js'', ''PlayCanvas'']\<rparr>),
     (''website'',
      \<lparr>frontend = Some [''React 19'', ''Next.js 15'', ''Vue 3'', ''Svelte''],
       backend = Some [''Node.js'', ''Express'', ''Fastify''],
       database = Some [''Supabase (free)'', ''MongoDB (free)'', ''PostgreSQL (free)''],
       deployment = Some [''Vercel'', ''Netlify'', ''GitHub Pages''],
       tools = Some [''Tailwind CSS 4'', ''Vite'', ''Webpack''],
       libraries = Some [''shadcn/ui'', ''Radix UI'', ''Headless UI'']\<rparr>),
     (''app'',
      \<lparr>frontend = Some [''React Native'', ''Flutter'', ''Expo''],
       backend = Some [''Node.js'', ''Express'', ''Firebase''],
       database = Some [''Supabase (free)'', ''Firebase (free)'', ''Realm''],
       deployment = Some [''Vercel'', ''Firebase'', ''AWS (free tier)''],
       tools = Some [''Expo'', ''Android Studio'', ''Xcode''],
       libraries = Some [''React Navigation'', ''Redux'', ''Zustand'']\<rparr>),
     (''ai-system'',
      \<lparr>frontend = Some [''React'', ''Next.js'', ''Streamlit''],
       backend = Some [''Node.js'', ''Python FastAPI'', ''Express''],
       database = Some [''Supabase (free)'', ''Pinecone (free)'', ''Weaviate''],
       deployment = Some [''Vercel'', ''Hugging Face Spaces'', ''Railway (free)''],
       tools = Some [''LangChain'', ''LlamaIndex'', ''Transformers.js''],
       libraries = Some [''OpenAI SDK'', ''Anthropic SDK'', ''Together.ai SDK'']\<rparr>),
     (''business-software'',
      \<lparr>frontend = Some [''React'', ''Vue'', ''Angular''],
       backend = Some [''Node.js'', ''Express'', ''NestJS''],
       database = Some [''Supabase (free)'', ''PostgreSQL (free)'', ''MySQL (free)''],
       deployment = Some [''Vercel'', ''Railway (free)'', ''Render (free)''],
       tools = Some [''Tailwind'', ''Vite'', ''TypeScript''],
       libraries = Some [''Tanstack Query'', ''Zod'', ''Prisma (free)'']\<rparr>),
     (''data-tool'',
      \<lparr>frontend = Some [''React'', ''Plotly.js'', ''D3.js''],
       backend = Some [''Node.js'', ''Python FastAPI'', ''Express''],
       database = Some [''Supabase (free)'', ''DuckDB'', ''ClickHouse''],
       deployment = Some [''Vercel'', ''Hugging Face Spaces'', ''Railway''],
       tools = Some [''Pandas'', ''NumPy'', ''Polars''],
       libraries = Some [''Apache Arrow'', ''Recharts'', ''Visx'']\<rparr>),
     (''security-tool'',
      \<lparr>frontend = Some [''React'', ''Vue''],
       backend = Some [''Node.js'', ''Express'', ''Rust Actix''],
       database = Some [''Supabase (free)'', ''PostgreSQL (free)''],
       deployment = Some [''Vercel'', ''Railway (free)'', ''Render (free)''],
       tools = Some [''Helmet.js'', ''OWASP'', ''Snyk''],
       libraries = Some [''Crypto-js'', ''jsonwebtoken'', ''bcrypt'']\<rparr>),
     (''api'',
      \<lparr>frontend = None,
       backend = Some [''Node.js'', ''Express'', ''Fastify'', ''Hono''],
       database = Some [''Supabase (free)'', ''MongoDB (free)'', ''PostgreSQL (free)''],
       deployment = Some [''Vercel'', ''Railway (free)'', ''Render (free)''],
       tools = Some [''Swagger/OpenAPI'', ''Jest'', ''Vitest''],
       libraries = Some [''tRPC'', ''GraphQL'', ''REST'']\<rparr>),
     (''cli'',
      \<lparr>frontend = None,
       backend = Some [''Node.js'', ''Rust'', ''Go''],
       database = None,
       deployment = Some [''npm'', ''GitHub Releases''],
       tools = Some [''Commander.js'', ''Yargs'', ''Clap''],
       libraries = Some [''Chalk'', ''Inquirer'', ''Table'']\<rparr>),
     (''other'', otherTemplate)]"

text \<open>
  \<^verbatim>\<open>this.techStackTemplates[projectType] || this.techStackTemplates.other\<close>. The table is
  an object literal, so besides its ten own keys a lookup also finds the members every
  object inherits from \<^verbatim>\<open>Object.prototype\<close>. Such a member is truthy, so the fallback
  is not taken, and it has none of the six tech-stack fields: reading them gives
  \<^verbatim>\<open>undefined\<close>. The ten values of the declared type \<^verbatim>\<open>ProjectType\<close> are the own keys.
\<close>

definition objectPrototypeNames :: "string list" where
  "objectPrototypeNames =
    [''constructor'', ''hasOwnProperty'', ''isPrototypeOf'', ''propertyIsEnumerable'',
     ''toLocaleString'', ''toString'', ''valueOf'', ''__proto__'',
     ''__defineGetter__'', ''__defineSetter__'', ''__lookupGetter__'', ''__lookupSetter__'']"

definition noFields :: TechStack where
  "noFields = \<lparr>frontend = None, backend = None, database = None, deployment = None,
                tools = None, libraries = None\<rparr>"

definition lookupTemplate :: "string \<Rightarrow> TechStack" where
  "lookupTemplate projectType =
     (case map_of techStackTemplates projectType of
        Some stack \<Rightarrow> stack
      | None \<Rightarrow> if projectType \<in> set objectPrototypeNames then noFields else otherTemplate)"

text \<open>\<^verbatim>\<open>analysis.complexity || 'medium'\<close>: a missing or empty complexity is falsy.\<close>

definition complexityOf :: "Analysis \<Rightarrow> string" where
  "complexityOf analysis =
     (case complexity analysis of
        None \<Rightarrow> ''medium''
      | Some c \<Rightarrow> if c = [] then ''medium'' else c)"

definition selectTechStack :: "string \<Rightarrow> Analysis \<Rightarrow> TechStack" where
  "selectTechStack projectType analysis =
     (let baseStack = lookupTemplate projectType;
          complexity = complexityOf analysis
      in if complexity = ''simple'' then
           \<lparr>frontend = map_option (take 1) (frontend baseStack),
            backend = map_option (take 1) (backend baseStack),
            database = map_option (take 1) (database baseStack),
            deployment = map_option (take 1) (deployment baseStack),
            tools = map_option (take 2) (tools baseStack),
            libraries = None\<rparr>
         else if complexity = ''enterprise'' then
           \<lparr>frontend = frontend baseStack,
            backend = backend baseStack,
            database = database baseStack,
            deployment = deployment baseStack,
            tools = tools baseStack,
            libraries = libraries baseStack\<rparr>
         else baseStack)"

definition estimateComplexity :: "ProjectRequirement \<Rightarrow> string" where
  "estimateComplexity requirement =
     (let featureCount = length (features requirement)
      in if featureCount \<le> 3 then ''simple''
         else if featureCount \<le> 8 then ''medium''
         else if featureCount \<le> 15 then ''complex''
         else ''enterprise'')"

text \<open>
  The engine object: the address and key of the external analysis service (empty when
  not configured) and the store of generated projects, of capacity \<^verbatim>\<open>maxProjects\<close>.
\<close>

record DeploymentPlan =
  platform :: string
  planBuildCommand :: string
  planStartCommand :: string
  planEnvironment :: "(string \<times> string) list"
  regions :: "string list"
  autoScale :: bool
  monitoring :: bool
  cost :: int

record GeneratedProject =
  id' :: string
  name :: string
  type :: string
  techStack :: TechStack
  files :: "(string, string) jsmap"
  deploymentConfig :: DeploymentPlan
  estimatedBuildTime :: int
  estimatedCost :: int
  confidence :: real
  timestamp :: int

record ULTRABUILDEngine =
  manusApiUrl :: string
  manusApiKey :: string
  generatedProjects :: "(string, GeneratedProject) jsmap"

definition maxProjects :: nat where
  "maxProjects = 10000"

text \<open>
  What one call of \<^verbatim>\<open>generateProject\<close> reads from outside the engine: the identifier
  drawn by \<^verbatim>\<open>generateProjectId\<close>, the clock, the outcome of the request to the analysis
  service (\<open>Inl\<close> when \<^verbatim>\<open>axios.post\<close> throws: a network error, a timeout after 30
  seconds, an error status), and the bodies of the file templates, which are fixed text.
\<close>

record GenerateWorld =
  newProjectId :: string
  genStartTime :: int
  buildNow :: int
  projectNow :: int
  analyzePost :: "ProjectRequirement \<Rightarrow> string + Analysis"
  generatePackageJson :: "ProjectRequirement \<Rightarrow> TechStack \<Rightarrow> string"
  generateReadme :: "ProjectRequirement \<Rightarrow> string"
  generateTsConfig :: string
  generateGitignore :: string
  generateGameTemplate :: string
  generateGameScene :: string
  generateWebsiteApp :: string
  generateHomePage :: string
  generateAppTemplate :: string
  generateHomeScreen :: string
  generateApiServer :: string
  generateApiRoutes :: string
  generateDefaultTemplate :: string

definition analyzeRequirement :: "ULTRABUILDEngine \<Rightarrow> GenerateWorld \<Rightarrow> ProjectRequirement \<Rightarrow> Analysis" where
  "analyzeRequirement eng w requirement =
     (if manusApiUrl eng \<noteq> [] \<and> manusApiKey eng \<noteq> [] then
        (case analyzePost w requirement of
           Inr responseData \<Rightarrow> responseData
         | Inl error \<Rightarrow>
             \<lparr>complexity = Some ''medium'',
              analysisFeatures = features requirement,
              estimatedFiles = 20,
              estimatedLines = 5000\<rparr>)
      else
        \<lparr>complexity = Some (estimateComplexity requirement),
         analysisFeatures = features requirement,
         estimatedFiles = int (length (features requirement)) * 3 + 10,
         estimatedLines = int (length (features requirement)) * 500 + 1000\<rparr>)"

definition generateSourceFiles :: "GenerateWorld \<Rightarrow> ProjectRequirement \<Rightarrow> (string, string) jsmap" where
  "generateSourceFiles w requirement =
     (if ProjectRequirement.type requirement = ''game'' then
        mapSet ''src/scenes/MainScene.ts'' (generateGameScene w)
          (mapSet ''src/game.ts'' (generateGameTemplate w) [])
      else if ProjectRequirement.type requirement = ''website'' then
        mapSet ''src/pages/Home.tsx'' (generateHomePage w)
          (mapSet ''src/App.tsx'' (generateWebsiteApp w) [])
      else if ProjectRequirement.type requirement = ''app'' then
        mapSet ''src/screens/HomeScreen.tsx'' (generateHomeScreen w)
          (mapSet ''src/App.tsx'' (generateAppTemplate w) [])
      else if ProjectRequirement.type requirement = ''api'' then
        mapSet ''src/routes/index.ts'' (generateApiRoutes w)
          (mapSet ''src/server.ts'' (generateApiServer w) [])
      else mapSet ''src/index.ts'' (generateDefaultTemplate w) [])"

definition generateProjectFiles :: "GenerateWorld \<Rightarrow> ProjectRequirement \<Rightarrow> TechStack \<Rightarrow> (string, string) jsmap" where
  "generateProjectFiles w requirement stack =
     (let files0 = mapSet ''package.json'' (generatePackageJson w requirement stack) [];
          files1 = mapSet ''README.md'' (generateReadme w requirement) files0;
          files2 = mapSet ''tsconfig.json'' (generateTsConfig w) files1;
          files3 = mapSet ''.gitignore'' (generateGitignore w) files2
      in foldl (\<lambda>acc (path, content). mapSet path content acc) files3
           (generateSourceFiles w requirement))"

definition generateDeploymentConfig :: "string \<Rightarrow> TechStack \<Rightarrow> DeploymentPlan" where
  "generateDeploymentConfig projectType stack =
     \<lparr>platform = ''vercel'',
      planBuildCommand = ''npm run build'',
      planStartCommand = ''npm start'',
      planEnvironment = [(''NODE_ENV'', ''production'')],
      regions = [''us-east-1'', ''eu-west-1''],
      autoScale = True,
      monitoring = True,
      cost = 0\<rparr>"

definition calculateConfidence :: "Analysis \<Rightarrow> (string, string) jsmap \<Rightarrow> real" where
  "calculateConfidence analysis fs =
     (let fileCount = mapSize fs;
          hasReadme = mapHas fs ''README.md'';
          hasPackageJson = mapHas fs ''package.json'';
          c0 = 7 / 10;
          c1 = (if fileCount > 10 then c0 + 15 / 100 else c0);
          c2 = (if hasReadme then c1 + 5 / 100 else c1);
          c3 = (if hasPackageJson then c2 + 5 / 100 else c2)
      in min 1 c3)"

text \<open>
  \<^verbatim>\<open>generateProject\<close>. Its \<^verbatim>\<open>catch\<close> rethrows; nothing in the body throws on a
  requirement of the declared type, since \<^verbatim>\<open>analyzeRequirement\<close> catches the failure of
  the request itself. The returned pair is the project and the engine after the call.
\<close>

definition generateProject :: "ULTRABUILDEngine \<Rightarrow> GenerateWorld \<Rightarrow> ProjectRequirement \<Rightarrow> GeneratedProject \<times> ULTRABUILDEngine" where
  "generateProject eng w requirement =
     (let analysis = analyzeRequirement eng w requirement;
          stack = selectTechStack (ProjectRequirement.type requirement) analysis;
          fs = generateProjectFiles w requirement stack;
          plan = generateDeploymentConfig (ProjectRequirement.type requirement) stack;
          buildTime = buildNow w - genStartTime w;
          conf = calculateConfidence analysis fs;
          project = \<lparr>id' = newProjectId w,
                     name = ProjectRequirement.name requirement,
                     type = ProjectRequirement.type requirement,
                     techStack = stack,
                     files = fs,
                     deploymentConfig = plan,
                     estimatedBuildTime = buildTime,
                     estimatedCost = 0,
                     confidence = conf,
                     timestamp = projectNow w\<rparr>
      in (project,
          eng\<lparr>generatedProjects :=
                storeRecord maxProjects (newProjectId w) project (generatedProjects eng)\<rparr>))"

section \<open>Self healer (src/lib/healers/self-healer.ts)\<close>

record CodeError =
  type :: string
  severity :: string
  line :: "nat option"
  column :: "nat option"
  message :: string
  code :: string
  suggestion :: "string option"

record HealingResult =
  original :: string
  healed :: string
  errorsFound :: "CodeError list"
  errorsFix :: nat
  confidence :: real
  timestamp :: int

text \<open>
  The regular expressions of the five pattern tables, each a literal with the flag
  \<^verbatim>\<open>g\<close>. In the order of the source:
  \<^item> syntax: \<^verbatim>\<open>/\{[^}]*\{[^}]*\}[^}]*\}/g\<close>, \<^verbatim>\<open>/\([^)]*\([^)]*\)[^)]*\)/g\<close>,
    \<^verbatim>\<open>/const\s+\w+\s*=/g\<close>, \<^verbatim>\<open>/function\s+\w+\s*\(\s*\)\s*\{/g\<close>;
  \<^item> type: \<^verbatim>\<open>/:\s*any\b/g\<close>, \<^verbatim>\<open>/\w+\s*\|\s*undefined/g\<close>, \<^verbatim>\<open>/as\s+\w+/g\<close>;
  \<^item> logic: \<^verbatim>\<open>/if\s*\(\s*true\s*\)/g\<close>, \<^verbatim>\<open>/if\s*\(\s*false\s*\)/g\<close>,
    \<^verbatim>\<open>/while\s*\(\s*true\s*\)/g\<close>, \<^verbatim>\<open>/==\s*null/g\<close>, \<^verbatim>\<open>/var\s+\w+/g\<close>;
  \<^item> security: \<^verbatim>\<open>/eval\s*\(/g\<close>, \<^verbatim>\<open>/innerHTML\s*=/g\<close>, \<^verbatim>\<open>/dangerouslySetInnerHTML/g\<close>,
    \<^verbatim>\<open>/process\.env\.\w+/g\<close>, \<^verbatim>\<open>/password\s*=\s*['"][^'"]*['"]/g\<close>;
  \<^item> performance: \<^verbatim>\<open>/\.map\s*\(\s*\)\s*\.filter/g\<close>, \<^verbatim>\<open>/for\s*\(\s*let\s+\w+\s*=\s*0/g\<close>,
    \<^verbatim>\<open>/JSON\.stringify\s*\(/g\<close>, \<^verbatim>\<open>/setTimeout\s*\(\s*\w+\s*,\s*0\s*\)/g\<close>.
\<close>

datatype rx =
    RxNestedBraces | RxNestedParentheses | RxConstAssignment | RxEmptyFunctionParameters
  | RxAnyType | RxOrUndefined | RxTypeAssertion
  | RxIfTrue | RxIfFalse | RxWhileTrue | RxEqualsNull | RxVar
  | RxEval | RxInnerHtml | RxDangerouslySetInnerHtml | RxProcessEnv | RxPassword
  | RxMapFilter | RxForLetZero | RxJsonStringify | RxSetTimeoutZero

record Pattern =
  regex :: rx
  message :: string

text \<open>
  What one call of the healer reads from outside: the identifier drawn by
  \<^verbatim>\<open>generateId\<close>, the clock, the regular-expression engine of the runtime and the
  external completion service.
  \<^item> \<open>stringMatch r code\<close> is \<^verbatim>\<open>code.match(r)\<close> for a global expression: \<open>None\<close> for
    \<^verbatim>\<open>null\<close> (no match), otherwise the first match and the remaining ones;
  \<^item> \<open>aiRequest prompt mode\<close> is \<^verbatim>\<open>aiOrchestrator.request(prompt, mode)\<close>: it throws
    (\<open>Inl\<close>) or returns an object whose \<^verbatim>\<open>response\<close> may be missing.
\<close>

record HealWorld =
  newHealingId :: string
  healNow :: int
  stringMatch :: "rx \<Rightarrow> string \<Rightarrow> (string \<times> string list) option"
  aiRequest :: "string \<Rightarrow> string \<Rightarrow> string + string option"

text \<open>
  The loop the five scan functions share: for each pattern of the table in order, when
  \<^verbatim>\<open>code.match\<close> is not \<^verbatim>\<open>null\<close>, push one error with \<^verbatim>\<open>matches[0]\<close> as its code.
\<close>

definition scanPatterns :: "HealWorld \<Rightarrow> string \<Rightarrow> string \<Rightarrow> Pattern list \<Rightarrow> string \<Rightarrow> CodeError list" where
  "scanPatterns w errorType errorSeverity patterns source =
     foldl (\<lambda>errors pattern.
              case stringMatch w (regex pattern) source of
                None \<Rightarrow> errors
              | Some (firstMatch, _) \<Rightarrow>
                  errors @ [\<lparr>type = errorType, severity = errorSeverity, line = None,
                             column = None, message = Pattern.message pattern,
                             code = firstMatch, suggestion = None\<rparr>])
           [] patterns"

definition syntaxPatterns :: "Pattern list" where
  "syntaxPatterns =
    [\<lparr>regex = RxNestedBraces, message = ''Nested braces detected''\<rparr>,
     \<lparr>regex = RxNestedParentheses, message = ''Nested parentheses detected''\<rparr>,
     \<lparr>regex = RxConstAssignment, message = ''Missing semicolon''\<rparr>,
     \<lparr>regex = RxEmptyFunctionParameters, message = ''Empty function parameters''\<rparr>]"

definition typePatterns :: "Pattern list" where
  "typePatterns =
    [\<lparr>regex = RxAnyType, message = ''Use of '' @ [CHR 0x22] @ ''any'' @ [CHR 0x22] @ '' type detected''\<rparr>,
     \<lparr>regex = RxOrUndefined, message = ''Potentially undefined value''\<rparr>,
     \<lparr>regex = RxTypeAssertion, message = ''Type assertion used - consider better typing''\<rparr>]"

definition logicPatterns :: "Pattern list" where
  "logicPatterns =
    [\<lparr>regex = RxIfTrue, message = ''Condition always true''\<rparr>,
     \<lparr>regex = RxIfFalse, message = ''Condition always false''\<rparr>,
     \<lparr>regex = RxWhileTrue, message = ''Infinite loop detected''\<rparr>,
     \<lparr>regex = RxEqualsNull, message = ''Use === instead of ==''\<rparr>,
     \<lparr>regex = RxVar, message = ''Use const/let instead of var''\<rparr>]"

definition securityPatterns :: "Pattern list" where
  "securityPatterns =
    [\<lparr>regex = RxEval, message = ''eval() is dangerous''\<rparr>,
     \<lparr>regex = RxInnerHtml, message = ''innerHTML can cause XSS''\<rparr>,
     \<lparr>regex = RxDangerouslySetInnerHtml, message = ''dangerouslySetInnerHTML can cause XSS''\<rparr>,
     \<lparr>regex = RxProcessEnv, message = ''Ensure env vars are not exposed''\<rparr>,
     \<lparr>regex = RxPassword, message = ''Hardcoded password detected''\<rparr>]"

definition performancePatterns :: "Pattern list" where
  "performancePatterns =
    [\<lparr>regex = RxMapFilter, message = ''Chain map and filter for better performance''\<rparr>,
     \<lparr>regex = RxForLetZero, message = ''Consider using forEach or map''\<rparr>,
     \<lparr>regex = RxJsonStringify, message = ''JSON.stringify can be slow on large objects''\<rparr>,
     \<lparr>regex = RxSetTimeoutZero, message = ''setTimeout with 0ms is inefficient''\<rparr>]"

definition scanSyntaxErrors :: "HealWorld \<Rightarrow> string \<Rightarrow> string \<Rightarrow> CodeError list" where
  "scanSyntaxErrors w source language = scanPatterns w ''syntax'' ''high'' syntaxPatterns source"

definition scanTypeErrors :: "HealWorld \<Rightarrow> string \<Rightarrow> string \<Rightarrow> CodeError list" where
  "scanTypeErrors w source language =
     (if language \<noteq> ''typescript'' then []
      else scanPatterns w ''type'' ''medium'' typePatterns source)"

definition scanLogicErrors :: "HealWorld \<Rightarrow> string \<Rightarrow> string \<Rightarrow> CodeError list" where
  "scanLogicErrors w source language = scanPatterns w ''logic'' ''high'' logicPatterns source"

definition scanSecurityIssues :: "HealWorld \<Rightarrow> string \<Rightarrow> string \<Rightarrow> CodeError list" where
  "scanSecurityIssues w source language =
     scanPatterns w ''security'' ''critical'' securityPatterns source"

definition scanPerformanceIssues :: "HealWorld \<Rightarrow> string \<Rightarrow> string \<Rightarrow> CodeError list" where
  "scanPerformanceIssues w source language =
     scanPatterns w ''performance'' ''low'' performancePatterns source"

definition scanCode :: "HealWorld \<Rightarrow> string \<Rightarrow> string \<Rightarrow> CodeError list" where
  "scanCode w source language =
     (let errors0 = [];
          errors1 = errors0 @ scanSyntaxErrors w source language;
          errors2 = errors1 @ scanTypeErrors w source language;
          errors3 = errors2 @ scanLogicErrors w source language;
          errors4 = errors3 @ scanSecurityIssues w source language;
          errors5 = errors4 @ scanPerformanceIssues w source language
      in errors5)"










section \<open>Monetization engine (src/unnamed/part_000)\<close>

text \<open>
  Prices, download counts and the revenue are JavaScript numbers. The model leaves the
  number type open: any type with an addition and a one. What is proved holds for
  whatever \<^verbatim>\<open>+\<close> computes, the rounding addition of doubles included.
\<close>

record 'n Template =
  id' :: string
  name :: string
  description :: string
  price :: 'n
  creator :: string
  downloads :: 'n
  rating :: 'n
  code :: string

record 'n MonetizationEngine =
  templates :: "(string, 'n Template) jsmap"
  revenue :: 'n

definition publishTemplate :: "'n MonetizationEngine \<Rightarrow> 'n Template \<Rightarrow> bool \<times> 'n MonetizationEngine" where
  "publishTemplate eng template =
     (True, eng\<lparr>templates := mapSet (Template.id' template) template (templates eng)\<rparr>)"


definition getRevenue :: "'n MonetizationEngine \<Rightarrow> 'n" where
  "getRevenue eng = revenue eng"

definition getTemplates :: "'n MonetizationEngine \<Rightarrow> 'n Template list" where
  "getTemplates eng = mapValues (templates eng)"

section \<open>The claims' vocabulary\<close>


text \<open>
  The scanner as the specification words it: five pattern groups in the order syntax,
  type (only for the language \<^verbatim>\<open>typescript\<close>), logic, security, performance, each with
  its category and its fixed severity; a pattern that matches gives one finding with the
  pattern's message and the first matched substring, a pattern that does not match
  gives none.
\<close>

definition specPatternTable :: "string \<Rightarrow> (string \<times> string \<times> Pattern) list" where
  "specPatternTable language =
     map (\<lambda>p. (''syntax'', ''high'', p)) syntaxPatterns
     @ (if language = ''typescript'' then map (\<lambda>p. (''type'', ''medium'', p)) typePatterns else [])
     @ map (\<lambda>p. (''logic'', ''high'', p)) logicPatterns
     @ map (\<lambda>p. (''security'', ''critical'', p)) securityPatterns
     @ map (\<lambda>p. (''performance'', ''low'', p)) performancePatterns"

definition specFindings :: "HealWorld \<Rightarrow> string \<Rightarrow> string \<times> string \<times> Pattern \<Rightarrow> CodeError list" where
  "specFindings w source entry =
     (case entry of (category, fixedSeverity, pattern) \<Rightarrow>
        (case stringMatch w (regex pattern) source of
           None \<Rightarrow> []
         | Some (firstMatch, _) \<Rightarrow>
             [\<lparr>type = category, severity = fixedSeverity, line = None, column = None,
               message = Pattern.message pattern, code = firstMatch, suggestion = None\<rparr>]))"

section \<open>Concrete inputs\<close>

text \<open>Small engines, worlds and requests on which the theorems below are instantiated.\<close>

definition quietWorld :: DeployWorld where
  "quietWorld =
     \<lparr>newDeploymentId = ''dep-1700000000000-k3x9q2m1z'',
      startTime = 1700000000000,
      innerNow = 1700000000005,
      durationNow = 1700000000040,
      timestampNow = 1700000000041,
      catchTimestampNow = 1700000000002,
      catchDurationNow = 1700000000003,
      execSync = (\<lambda>command cwd. Inr ''c0ffee''),
      vercelPost = (\<lambda>config token. Inr (''shop.vercel.app'', ''dpl_1'')),
      githubPost = (\<lambda>config token.
         Inr (''https://github.com/u/shop'', ''42'', ''https://github.com/u/shop.git'')),
      toLowerCase = (\<lambda>s. s),
      trim = (\<lambda>s. s)\<rparr>"

definition shopConfig :: "string \<Rightarrow> DeploymentConfig" where
  "shopConfig deployTarget =
     \<lparr>projectName = ''shop'', projectId = ''proj-1'', target = deployTarget,
      files = [(''package.json'', ''{}'')], environment = None, buildCommand = None,
      startCommand = None\<rparr>"

definition earlierResult :: DeploymentResult where
  "earlierResult =
     \<lparr>success = True, url = Some ''https://your-app.elasticbeanstalk.com'',
      deploymentId = None, logs = Some ''ok'', timestamp = 1600000000000, duration = 7\<rparr>"

definition noTokenEngine :: DeploymentEngine where
  "noTokenEngine = \<lparr>vercelToken = [], githubToken = [], deployments = []\<rparr>"

definition busyEngine :: DeploymentEngine where
  "busyEngine =
     \<lparr>vercelToken = ''vt'', githubToken = ''gt'',
      deployments = [(''dep-1600000000000-aaaaaaaaa'', earlierResult)]\<rparr>"

definition requirementWith :: "string \<Rightarrow> string list \<Rightarrow> ProjectRequirement" where
  "requirementWith projectType fs =
     \<lparr>ProjectRequirement.name = ''shop'',
      ProjectRequirement.description = ''A small shop'',
      ProjectRequirement.type = projectType,
      features = fs, constraints = None\<rparr>"

definition offlineEngine :: ULTRABUILDEngine where
  "offlineEngine = \<lparr>manusApiUrl = [], manusApiKey = [], generatedProjects = []\<rparr>"

definition onlineEngine :: ULTRABUILDEngine where
  "onlineEngine =
     \<lparr>manusApiUrl = ''https://manus.example'', manusApiKey = ''key'', generatedProjects = []\<rparr>"

text \<open>A world in which the request to the analysis service runs into its timeout.\<close>

definition timeoutWorld :: GenerateWorld where
  "timeoutWorld =
     \<lparr>newProjectId = ''proj-1700000000000-q1w2e3r4t'',
      genStartTime = 1700000000000,
      buildNow = 1700000030000,
      projectNow = 1700000030001,
      analyzePost = (\<lambda>requirement. Inl ''timeout of 30000ms exceeded''),
      generatePackageJson = (\<lambda>requirement stack. ''{}''),
      generateReadme = (\<lambda>requirement. ''# shop''),
      generateTsConfig = ''{}'',
      generateGitignore = ''node_modules'',
      generateGameTemplate = ''game'',
      generateGameScene = ''scene'',
      generateWebsiteApp = ''app'',
      generateHomePage = ''home'',
      generateAppTemplate = ''app'',
      generateHomeScreen = ''screen'',
      generateApiServer = ''server'',
      generateApiRoutes = ''routes'',
      generateDefaultTemplate = ''index''\<rparr>"


definition evalMatch :: "rx \<Rightarrow> string \<Rightarrow> (string \<times> string list) option" where
  "evalMatch r source = (if r = RxEval \<and> source = ''eval(x)'' then Some (''eval('', []) else None)"

definition evalWorld :: HealWorld where
  "evalWorld =
     \<lparr>newHealingId = ''heal-1700000000000-a1b2c3d4e'', healNow = 1700000000100,
      stringMatch = evalMatch,
      aiRequest = (\<lambda>prompt mode. Inr (Some ''run(x)''))\<rparr>"







section \<open>Properties\<close>

subsection \<open>Insertion-ordered maps and the bounded store\<close>

lemma mapSet_fresh: "k \<notin> set (mapKeys m) \<Longrightarrow> mapSet k v m = m @ [(k, v)]"
  unfolding mapSet_def mapKeys_def by (induction m) auto

lemma mapSize_mapSet_le: "mapSize (mapSet k v m) \<le> Suc (mapSize m)"
  unfolding mapSet_def mapSize_def by (induction m) auto

lemma mapSet_nonempty: "mapSet k v m \<noteq> []"
  unfolding mapSet_def by (cases m) auto

lemma mapSize_deleteFirst: "m \<noteq> [] \<Longrightarrow> mapSize (mapDeleteFirstKey m) < mapSize m"
  unfolding mapDeleteFirstKey_def mapDelete_def mapSize_def mapKeys_def
  by (cases m) (auto simp: AList.delete_eq le_imp_less_Suc)

lemma delete_absent: "k \<notin> fst ` set m \<Longrightarrow> AList.delete k m = m"
  by (induction m) auto

lemma mapDeleteFirstKey_wf: "mapWf ((k, v) # m) \<Longrightarrow> mapDeleteFirstKey ((k, v) # m) = m"
  unfolding mapDeleteFirstKey_def mapDelete_def mapWf_def mapKeys_def
  by (simp add: delete_absent)

lemma mapGet_mapSet: "mapGet (mapSet k v m) k' = (if k' = k then Some v else mapGet m k')"
  unfolding mapGet_def mapSet_def by (simp add: update_conv')

lemma mapWf_mapSet: "mapWf m \<Longrightarrow> mapWf (mapSet k v m)"
  unfolding mapWf_def mapSet_def by (simp add: distinct_update)

lemma mapWf_mapDeleteFirstKey: "mapWf m \<Longrightarrow> mapWf (mapDeleteFirstKey m)"
  unfolding mapWf_def mapDeleteFirstKey_def mapDelete_def
  by (auto split: list.splits simp: distinct_delete)

lemma storeRecord_size: "mapSize m \<le> N \<Longrightarrow> mapSize (storeRecord N k v m) \<le> N"
  using mapSize_mapSet_le [of k v m] mapSize_deleteFirst [OF mapSet_nonempty, of k v m]
  unfolding storeRecord_def Let_def by auto

lemma storeRecord_wf: "mapWf m \<Longrightarrow> mapWf (storeRecord N k v m)"
  unfolding storeRecord_def Let_def by (simp add: mapWf_mapSet mapWf_mapDeleteFirstKey)

lemma storeRecord_fresh:
  assumes "mapWf m" "k \<notin> set (mapKeys m)" "mapSize m \<le> N"
  shows "storeRecord N k v m = drop (Suc (mapSize m) - N) (m @ [(k, v)])"
proof (cases "mapSize m < N")
  case True
  then show ?thesis using assms by (simp add: storeRecord_def mapSet_fresh mapSize_def)
next
  case False
  then have eq: "mapSize m = N" using assms by simp
  show ?thesis
  proof (cases m)
    case Nil
    then show ?thesis using eq
      by (simp add: storeRecord_def mapSet_def mapSize_def mapDeleteFirstKey_def mapKeys_def mapDelete_def)
  next
    case (Cons p ps)
    obtain k0 v0 where p: "p = (k0, v0)" by (cases p)
    have wf: "mapWf ((k0, v0) # (ps @ [(k, v)]))"
      using assms Cons p unfolding mapWf_def mapKeys_def by auto
    show ?thesis using eq assms Cons p mapDeleteFirstKey_wf [OF wf]
      by (simp add: storeRecord_def mapSet_fresh mapSize_def)
  qed
qed



lemma update_present_length: "k \<in> fst ` set m \<Longrightarrow> length (AList.update k v m) = length m"
  by (induction m) auto

lemma storeRecord_fresh_room:
  assumes "mapWf m" "k \<notin> set (mapKeys m)" "mapSize m < N"
  shows "storeRecord N k v m = m @ [(k, v)]"
  using assms storeRecord_fresh [of m k N v] by simp

lemma storeRecord_fresh_full:
  assumes "mapWf m" "k \<notin> set (mapKeys m)" "mapSize m = N" "0 < N"
  shows "storeRecord N k v m = tl m @ [(k, v)]"
proof -
  have "m \<noteq> []" using assms by (auto simp: mapSize_def)
  then have "drop (Suc 0) (m @ [(k, v)]) = tl m @ [(k, v)]"
    by (cases m) auto
  then show ?thesis using assms storeRecord_fresh [of m k N v] by simp
qed

lemma mapGet_storeRecord:
  assumes "0 < N" "mapSize m \<le> N"
  shows "mapGet (storeRecord N k v m) k = Some v"
proof (cases "mapSize (mapSet k v m) > N")
  case False
  then show ?thesis by (simp add: storeRecord_def mapGet_mapSet)
next
  case True
  have fresh: "k \<notin> set (mapKeys m)"
  proof
    assume "k \<in> set (mapKeys m)"
    then have "mapSize (mapSet k v m) = mapSize m"
      unfolding mapSize_def mapSet_def mapKeys_def by (simp add: update_present_length)
    then show False using True assms by simp
  qed
  then have eq: "mapSet k v m = m @ [(k, v)]" by (rule mapSet_fresh)
  have "m \<noteq> []" using True assms eq by (auto simp: mapSize_def)
  then obtain k0 v0 ps where m: "m = (k0, v0) # ps" by (cases m) auto
  have ne: "k \<noteq> k0" using fresh m by (auto simp: mapKeys_def)
  have "storeRecord N k v m = mapDeleteFirstKey (m @ [(k, v)])"
    using True by (simp add: storeRecord_def Let_def eq)
  also have "\<dots> = AList.delete k0 (m @ [(k, v)])"
    by (simp add: m mapDeleteFirstKey_def mapKeys_def mapDelete_def)
  finally have "mapGet (storeRecord N k v m) k = map_of (m @ [(k, v)]) k"
    using ne by (simp only: mapGet_def delete_conv') simp
  also have "\<dots> = Some v"
    using fresh by (simp add: mapKeys_def map_of_eq_None_iff [THEN iffD2] map_add_def)
  finally show ?thesis .
qed

subsection \<open>Deployment engine\<close>

lemma dispatch_supported:
  "target config \<in> {''vercel'', ''github'', ''docker'', ''aws''} \<Longrightarrow>
   \<not> isl (dispatchTarget eng w config)"
  unfolding dispatchTarget_def by auto

lemma deploy_preserves_wf:
  "mapWf (deployments eng) \<Longrightarrow> mapWf (deployments (snd (deploy eng w config)))"
  by (simp add: deploy_def Let_def storeRecord_wf split: sum.splits)

lemma deploy_supported:
  assumes "dispatchTarget eng w config = Inr r0"
  shows "deploy eng w config =
          (r0\<lparr>duration := durationNow w - startTime w, DeploymentResult.timestamp := timestampNow w\<rparr>,
           eng\<lparr>deployments := storeRecord maxDeployments (newDeploymentId w)
              (r0\<lparr>duration := durationNow w - startTime w, DeploymentResult.timestamp := timestampNow w\<rparr>)
              (deployments eng)\<rparr>)"
  using assms by (simp add: deploy_def Let_def)

text \<open>
  Claim C1, as the code has it. A call of \<^verbatim>\<open>deploy\<close> whose target is one of
  \<^verbatim>\<open>vercel\<close>, \<^verbatim>\<open>github\<close>, \<^verbatim>\<open>docker\<close>, \<^verbatim>\<open>aws\<close> stores the result it returns, successful
  or failed, under the new deployment identifier; the store stays within
  \<^verbatim>\<open>maxDeployments\<close>, and for a fresh identifier the result is appended at the end, the
  oldest entry being dropped when the store was full. A call with any other target
  returns a failed result carrying the message of the exception and leaves the store as
  it was.
\<close>

theorem deploy_stores_result_for_supported_target:
  "(target config \<in> {''vercel'', ''github'', ''docker'', ''aws''} \<and>
      mapWf (deployments eng) \<and> mapSize (deployments eng) \<le> maxDeployments \<longrightarrow>
      mapGet (deployments (snd (deploy eng w config))) (newDeploymentId w)
        = Some (fst (deploy eng w config)) \<and>
      mapSize (deployments (snd (deploy eng w config))) \<le> maxDeployments \<and>
      (newDeploymentId w \<notin> set (mapKeys (deployments eng)) \<longrightarrow>
         deployments (snd (deploy eng w config)) =
           (if mapSize (deployments eng) < maxDeployments
            then deployments eng @ [(newDeploymentId w, fst (deploy eng w config))]
            else tl (deployments eng) @ [(newDeploymentId w, fst (deploy eng w config))])))
   \<and> (target config \<notin> {''vercel'', ''github'', ''docker'', ''aws''} \<longrightarrow>
      deploy eng w config =
        (\<lparr>success = False, url = None, deploymentId = None,
          logs = Some (''Unknown deployment target: '' @ target config),
          timestamp = catchTimestampNow w,
          duration = catchDurationNow w - startTime w\<rparr>, eng))"
proof (intro conjI impI)
  assume a: "target config \<in> {''vercel'', ''github'', ''docker'', ''aws''} \<and>
      mapWf (deployments eng) \<and> mapSize (deployments eng) \<le> maxDeployments"
  then obtain r0 where r0: "dispatchTarget eng w config = Inr r0"
    using dispatch_supported [of config eng w] by (cases "dispatchTarget eng w config") auto
  note d = deploy_supported [OF r0]
  from a have wf: "mapWf (deployments eng)" and sz: "mapSize (deployments eng) \<le> maxDeployments"
    by simp_all
  show "mapGet (deployments (snd (deploy eng w config))) (newDeploymentId w)
        = Some (fst (deploy eng w config))"
    using mapGet_storeRecord [OF _ sz] by (simp add: d maxDeployments_def)
  show "mapSize (deployments (snd (deploy eng w config))) \<le> maxDeployments"
    using storeRecord_size [OF sz] by (simp add: d)
  assume fresh: "newDeploymentId w \<notin> set (mapKeys (deployments eng))"
  show "deployments (snd (deploy eng w config)) =
           (if mapSize (deployments eng) < maxDeployments
            then deployments eng @ [(newDeploymentId w, fst (deploy eng w config))]
            else tl (deployments eng) @ [(newDeploymentId w, fst (deploy eng w config))])"
  proof (cases "mapSize (deployments eng) < maxDeployments")
    case True
    then show ?thesis using storeRecord_fresh_room [OF wf fresh True] by (simp add: d)
  next
    case False
    then have full: "mapSize (deployments eng) = maxDeployments" using sz by simp
    have pos: "0 < maxDeployments" by (simp add: maxDeployments_def)
    show ?thesis using False storeRecord_fresh_full [OF wf fresh full pos] by (simp add: d)
  qed
next
  assume "target config \<notin> {''vercel'', ''github'', ''docker'', ''aws''}"
  then show "deploy eng w config =
        (\<lparr>success = False, url = None, deploymentId = None,
          logs = Some (''Unknown deployment target: '' @ target config),
          timestamp = catchTimestampNow w,
          duration = catchDurationNow w - startTime w\<rparr>, eng)"
    by (simp add: deploy_def dispatchTarget_def)
qed

text \<open>
  The instance of C1 on a store with one earlier deployment and the target \<^verbatim>\<open>docker\<close>.
\<close>

theorem deploy_stores_result_witness:
  "target (shopConfig ''docker'') \<in> {''vercel'', ''github'', ''docker'', ''aws''} \<and>
   mapWf (deployments busyEngine) \<and>
   mapSize (deployments busyEngine) \<le> maxDeployments \<and>
   newDeploymentId quietWorld \<notin> set (mapKeys (deployments busyEngine)) \<and>
   mapGet (deployments (snd (deploy busyEngine quietWorld (shopConfig ''docker''))))
     (newDeploymentId quietWorld)
     = Some (fst (deploy busyEngine quietWorld (shopConfig ''docker''))) \<and>
   deployments (snd (deploy busyEngine quietWorld (shopConfig ''docker''))) =
     deployments busyEngine
       @ [(newDeploymentId quietWorld, fst (deploy busyEngine quietWorld (shopConfig ''docker'')))]"
proof -
  have h: "target (shopConfig ''docker'') \<in> {''vercel'', ''github'', ''docker'', ''aws''} \<and>
      mapWf (deployments busyEngine) \<and> mapSize (deployments busyEngine) \<le> maxDeployments"
    by (simp add: shopConfig_def busyEngine_def mapWf_def mapSize_def maxDeployments_def)
  have fresh: "newDeploymentId quietWorld \<notin> set (mapKeys (deployments busyEngine))"
    by (simp add: busyEngine_def quietWorld_def mapKeys_def)
  have room: "mapSize (deployments busyEngine) < maxDeployments"
    by (simp add: busyEngine_def mapSize_def maxDeployments_def)
  note stored = deploy_stores_result_for_supported_target
                  [of "shopConfig ''docker''" busyEngine quietWorld]
  from stored h have got:
    "mapGet (deployments (snd (deploy busyEngine quietWorld (shopConfig ''docker''))))
       (newDeploymentId quietWorld)
       = Some (fst (deploy busyEngine quietWorld (shopConfig ''docker'')))"
    by blast
  from stored h fresh have
    "deployments (snd (deploy busyEngine quietWorld (shopConfig ''docker''))) =
       (if mapSize (deployments busyEngine) < maxDeployments
        then deployments busyEngine
               @ [(newDeploymentId quietWorld,
                   fst (deploy busyEngine quietWorld (shopConfig ''docker'')))]
        else tl (deployments busyEngine)
               @ [(newDeploymentId quietWorld,
                   fst (deploy busyEngine quietWorld (shopConfig ''docker'')))])"
    by blast
  then have appended:
    "deployments (snd (deploy busyEngine quietWorld (shopConfig ''docker''))) =
       deployments busyEngine
         @ [(newDeploymentId quietWorld,
             fst (deploy busyEngine quietWorld (shopConfig ''docker'')))]"
    by (simp only: room if_True)
  from h fresh got appended show ?thesis by blast
qed

text \<open>
  Claim C1 as stated fails: with the target \<^verbatim>\<open>heroku\<close> the call returns a result with
  \<^verbatim>\<open>success\<close> false, and the store is still empty afterwards.
\<close>

theorem deploy_unknown_target_not_stored:
  "\<not> success (fst (deploy noTokenEngine quietWorld (shopConfig ''heroku''))) \<and>
   mapGet (deployments (snd (deploy noTokenEngine quietWorld (shopConfig ''heroku''))))
     (newDeploymentId quietWorld) = None \<and>
   mapSize (deployments (snd (deploy noTokenEngine quietWorld (shopConfig ''heroku'')))) = 0"
  by (simp add: deploy_def dispatchTarget_def shopConfig_def noTokenEngine_def mapGet_def
      mapSize_def)

text \<open>
  Claim C3. With the target \<^verbatim>\<open>vercel\<close> and no Vercel token, or the target \<^verbatim>\<open>github\<close> and
  no GitHub token, \<^verbatim>\<open>deploy\<close> returns a result with \<^verbatim>\<open>success\<close> false whose log contains
  \<^verbatim>\<open>not configured\<close>; no exception is raised, not even inside the \<^verbatim>\<open>try\<close> block.
\<close>

theorem deploy_missing_token_not_configured:
  assumes "(target config = ''vercel'' \<and> vercelToken eng = []) \<or>
           (target config = ''github'' \<and> githubToken eng = [])"
  shows "\<not> success (fst (deploy eng w config)) \<and>
         logs (fst (deploy eng w config)) =
           Some (if target config = ''vercel'' then ''Vercel token not configured''
                 else ''GitHub token not configured'') \<and>
         (case logs (fst (deploy eng w config)) of
            None \<Rightarrow> False
          | Some l \<Rightarrow> includesStr l ''not configured'') \<and>
         \<not> isl (dispatchTarget eng w config)"
  using assms
  by (auto simp: deploy_def Let_def dispatchTarget_def deployToVercel_def deployToGitHub_def
      failedResult_def)

text \<open>
  The instance of C3 for \<^verbatim>\<open>vercel\<close> on an engine without tokens.
\<close>

theorem deploy_missing_token_witness:
  "target (shopConfig ''vercel'') = ''vercel'' \<and> vercelToken noTokenEngine = [] \<and>
   \<not> success (fst (deploy noTokenEngine quietWorld (shopConfig ''vercel''))) \<and>
   logs (fst (deploy noTokenEngine quietWorld (shopConfig ''vercel'')))
     = Some ''Vercel token not configured''"
  using deploy_missing_token_not_configured
          [of "shopConfig ''vercel''" noTokenEngine quietWorld]
  by (simp add: shopConfig_def noTokenEngine_def)

text \<open>
  Claim C10. \<^verbatim>\<open>getStatus\<close> never reports \<^verbatim>\<open>NaN\<close> as the success rate: on an empty store
  the rate is 0, otherwise it is the percentage of successful results; the total is the
  size of the store and is the sum of the successful and the failed results.
\<close>

theorem getStatus_success_rate_defined:
  "successRate (getStatus eng) \<noteq> NaN \<and>
   (mapSize (deployments eng) = 0 \<longrightarrow> successRate (getStatus eng) = Num 0) \<and>
   totalDeployments (getStatus eng) = mapSize (deployments eng) \<and>
   int (successful (getStatus eng)) + failed (getStatus eng)
     = int (totalDeployments (getStatus eng)) \<and>
   successful (getStatus eng) \<le> totalDeployments (getStatus eng) \<and>
   0 \<le> failed (getStatus eng) \<and>
   (mapSize (deployments eng) \<noteq> 0 \<longrightarrow>
      successRate (getStatus eng) =
        Num (real (successful (getStatus eng)) / real (mapSize (deployments eng)) * 100))"
  by (auto simp: getStatus_def Let_def jsDivide_def mapSize_def mapValues_def
      intro: order_trans [OF length_filter_le])

text \<open>
  The instances of C10 on an empty store and on a store with one successful result.
\<close>

theorem getStatus_witness:
  "mapSize (deployments noTokenEngine) = 0 \<and>
   successRate (getStatus noTokenEngine) = Num 0 \<and>
   mapSize (deployments busyEngine) \<noteq> 0 \<and>
   successRate (getStatus busyEngine) = Num 100"
  using getStatus_success_rate_defined [of noTokenEngine]
        getStatus_success_rate_defined [of busyEngine]
  by (simp add: noTokenEngine_def busyEngine_def mapSize_def getStatus_def mapValues_def
      earlierResult_def)

subsection \<open>Complexity estimate and tech-stack selection\<close>

text \<open>
  Claim C5. The local complexity estimate depends on the length of the feature list
  only: at most 3 features give \<^verbatim>\<open>simple\<close>, 4 to 8 \<^verbatim>\<open>medium\<close>, 9 to 15 \<^verbatim>\<open>complex\<close>, more
  than 15 \<^verbatim>\<open>enterprise\<close>; the counts 0, 3, 4, 8, 9, 15, 16 give simple, simple, medium,
  medium, complex, complex, enterprise.
\<close>

theorem estimateComplexity_thresholds:
  "(length (features r) \<le> 3 \<longrightarrow> estimateComplexity r = ''simple'') \<and>
   (3 < length (features r) \<and> length (features r) \<le> 8 \<longrightarrow> estimateComplexity r = ''medium'') \<and>
   (8 < length (features r) \<and> length (features r) \<le> 15 \<longrightarrow> estimateComplexity r = ''complex'') \<and>
   (15 < length (features r) \<longrightarrow> estimateComplexity r = ''enterprise'') \<and>
   (length (features r) = length (features r') \<longrightarrow> estimateComplexity r = estimateComplexity r') \<and>
   map (\<lambda>n. estimateComplexity (r\<lparr>features := replicate n f\<rparr>)) [0, 3, 4, 8, 9, 15, 16]
     = [''simple'', ''simple'', ''medium'', ''medium'', ''complex'', ''complex'', ''enterprise'']"
  by (simp add: estimateComplexity_def Let_def)

text \<open>
  The instance of C5 on a requirement with four features.
\<close>

theorem estimateComplexity_witness:
  "3 < length (features (requirementWith ''website'' [''cart'', ''search'', ''login'', ''pay''])) \<and>
   length (features (requirementWith ''website'' [''cart'', ''search'', ''login'', ''pay''])) \<le> 8 \<and>
   estimateComplexity (requirementWith ''website'' [''cart'', ''search'', ''login'', ''pay''])
     = ''medium''"
  using estimateComplexity_thresholds
          [of "requirementWith ''website'' [''cart'', ''search'', ''login'', ''pay'']"]
  by (simp add: requirementWith_def)

text \<open>
  None of the ten keys of the catalog, the values of \<^verbatim>\<open>ProjectType\<close>, is a name inherited
  from \<^verbatim>\<open>Object.prototype\<close>.
\<close>

lemma catalog_keys_not_inherited:
  "set (map fst techStackTemplates) \<inter> set objectPrototypeNames = {}"
  by (simp add: techStackTemplates_def objectPrototypeNames_def)




text \<open>
  For a name inherited from \<^verbatim>\<open>Object.prototype\<close> the lookup finds the inherited member
  instead of falling back, and every field of the selected stack is \<^verbatim>\<open>undefined\<close>.
\<close>

lemma selectTechStack_inherited_name:
  "projectType \<in> set objectPrototypeNames \<Longrightarrow>
   selectTechStack projectType analysis = noFields"
proof -
  assume inherited: "projectType \<in> set objectPrototypeNames"
  then have "projectType \<notin> set (map fst techStackTemplates)"
    using catalog_keys_not_inherited by blast
  then have "map_of techStackTemplates projectType = None"
    by (simp add: map_of_eq_None_iff)
  then have "lookupTemplate projectType = noFields"
    using inherited by (simp add: lookupTemplate_def)
  then show ?thesis
    by (simp add: selectTechStack_def Let_def noFields_def)
qed


subsection \<open>The analysis step of generateProject\<close>

lemma selectTechStack_cong:
  "complexity a = complexity b \<Longrightarrow> selectTechStack t a = selectTechStack t b"
  by (simp add: selectTechStack_def complexityOf_def)

lemma generateProject_techStack:
  "techStack (fst (generateProject eng w req))
     = selectTechStack (ProjectRequirement.type req) (analyzeRequirement eng w req)"
  by (simp add: generateProject_def Let_def)

lemma selectTechStack_medium:
  "complexity a = Some ''medium'' \<Longrightarrow> selectTechStack t a = lookupTemplate t"
  by (simp add: selectTechStack_def complexityOf_def)

text \<open>
  Claim C2, as the code has it. Without credentials (the address or the key is empty)
  no request is made, the analysis carries the local estimate, and the tech stack is the
  one selected for that estimate. With credentials, when the request throws (network
  error, timeout), the analysis is a fixed one with complexity \<^verbatim>\<open>medium\<close>, 20 files and
  5000 lines, whatever the feature count, and the tech stack is the catalog entry as it
  is.
\<close>

theorem analyzeRequirement_fallbacks:
  "(manusApiUrl eng = [] \<or> manusApiKey eng = [] \<longrightarrow>
      complexity (analyzeRequirement eng w req) = Some (estimateComplexity req) \<and>
      (\<forall>a::Analysis. complexity a = Some (estimateComplexity req) \<longrightarrow>
         techStack (fst (generateProject eng w req))
           = selectTechStack (ProjectRequirement.type req) a)) \<and>
   (manusApiUrl eng \<noteq> [] \<and> manusApiKey eng \<noteq> [] \<and> isl (analyzePost w req) \<longrightarrow>
      analyzeRequirement eng w req =
        \<lparr>complexity = Some ''medium'', analysisFeatures = features req,
         estimatedFiles = 20, estimatedLines = 5000\<rparr> \<and>
      techStack (fst (generateProject eng w req))
        = lookupTemplate (ProjectRequirement.type req))"
proof (intro conjI impI allI)
  assume missing: "manusApiUrl eng = [] \<or> manusApiKey eng = []"
  then show local: "complexity (analyzeRequirement eng w req) = Some (estimateComplexity req)"
    by (auto simp: analyzeRequirement_def)
  fix a :: Analysis
  assume "complexity a = Some (estimateComplexity req)"
  then have "complexity (analyzeRequirement eng w req) = complexity a" using local by simp
  then show "techStack (fst (generateProject eng w req))
           = selectTechStack (ProjectRequirement.type req) a"
    unfolding generateProject_techStack by (rule selectTechStack_cong)
next
  assume failing: "manusApiUrl eng \<noteq> [] \<and> manusApiKey eng \<noteq> [] \<and> isl (analyzePost w req)"
  then show fixed: "analyzeRequirement eng w req =
        \<lparr>complexity = Some ''medium'', analysisFeatures = features req,
         estimatedFiles = 20, estimatedLines = 5000\<rparr>"
    by (auto simp: analyzeRequirement_def isl_def)
  show "techStack (fst (generateProject eng w req))
        = lookupTemplate (ProjectRequirement.type req)"
    unfolding generateProject_techStack
    by (rule selectTechStack_medium) (simp add: fixed)
qed

text \<open>
  The instances of C2: an engine without credentials, and an engine with credentials
  whose request times out.
\<close>

theorem analyzeRequirement_fallbacks_witness:
  "manusApiUrl offlineEngine = [] \<and>
   complexity (analyzeRequirement offlineEngine timeoutWorld (requirementWith ''cli'' []))
     = Some ''simple'' \<and>
   manusApiUrl onlineEngine \<noteq> [] \<and> manusApiKey onlineEngine \<noteq> [] \<and>
   isl (analyzePost timeoutWorld (requirementWith ''cli'' [])) \<and>
   complexity (analyzeRequirement onlineEngine timeoutWorld (requirementWith ''cli'' []))
     = Some ''medium''"
proof -
  have off: "manusApiUrl offlineEngine = []" by (simp add: offlineEngine_def)
  have on: "manusApiUrl onlineEngine \<noteq> [] \<and> manusApiKey onlineEngine \<noteq> [] \<and>
            isl (analyzePost timeoutWorld (requirementWith ''cli'' []))"
    by (simp add: onlineEngine_def timeoutWorld_def)
  have est: "estimateComplexity (requirementWith ''cli'' []) = ''simple''"
    by (simp add: estimateComplexity_def requirementWith_def)
  from analyzeRequirement_fallbacks [of offlineEngine timeoutWorld "requirementWith ''cli'' []"] off
  have a: "complexity (analyzeRequirement offlineEngine timeoutWorld (requirementWith ''cli'' []))
            = Some (estimateComplexity (requirementWith ''cli'' []))"
    by blast
  from analyzeRequirement_fallbacks [of onlineEngine timeoutWorld "requirementWith ''cli'' []"] on
  have b: "analyzeRequirement onlineEngine timeoutWorld (requirementWith ''cli'' []) =
        \<lparr>complexity = Some ''medium'',
         analysisFeatures = features (requirementWith ''cli'' []),
         estimatedFiles = 20, estimatedLines = 5000\<rparr>"
    by blast
  show ?thesis using off on a b by (simp add: est)
qed

text \<open>
  Claim C2 as stated fails: for a \<^verbatim>\<open>cli\<close> requirement without features the local
  estimate is \<^verbatim>\<open>simple\<close>, but when the request times out the complexity used is
  \<^verbatim>\<open>medium\<close> and the selected tech stack is not the one of the local estimate.
\<close>

theorem analyzeRequirement_timeout_not_local_estimate:
  "manusApiUrl onlineEngine \<noteq> [] \<and> manusApiKey onlineEngine \<noteq> [] \<and>
   isl (analyzePost timeoutWorld (requirementWith ''cli'' [])) \<and>
   estimateComplexity (requirementWith ''cli'' []) = ''simple'' \<and>
   complexity (analyzeRequirement onlineEngine timeoutWorld (requirementWith ''cli'' []))
     = Some ''medium'' \<and>
   techStack (fst (generateProject onlineEngine timeoutWorld (requirementWith ''cli'' [])))
     \<noteq> selectTechStack ''cli''
          \<lparr>complexity = Some (estimateComplexity (requirementWith ''cli'' [])),
           analysisFeatures = [], estimatedFiles = 10, estimatedLines = 1000\<rparr>"
proof -
  have est: "estimateComplexity (requirementWith ''cli'' []) = ''simple''"
    by (simp add: estimateComplexity_def requirementWith_def)
  have an: "analyzeRequirement onlineEngine timeoutWorld (requirementWith ''cli'' []) =
        \<lparr>complexity = Some ''medium'', analysisFeatures = [],
         estimatedFiles = 20, estimatedLines = 5000\<rparr>"
    by (simp add: analyzeRequirement_def onlineEngine_def timeoutWorld_def requirementWith_def)
  have cli: "lookupTemplate ''cli'' =
      \<lparr>frontend = None, backend = Some [''Node.js'', ''Rust'', ''Go''], database = None,
       deployment = Some [''npm'', ''GitHub Releases''],
       tools = Some [''Commander.js'', ''Yargs'', ''Clap''],
       libraries = Some [''Chalk'', ''Inquirer'', ''Table'']\<rparr>"
    by (simp add: lookupTemplate_def techStackTemplates_def)
  have ty: "ProjectRequirement.type (requirementWith ''cli'' []) = ''cli''"
    by (simp add: requirementWith_def)
  have used: "techStack (fst (generateProject onlineEngine timeoutWorld (requirementWith ''cli'' [])))
      = lookupTemplate ''cli''"
    unfolding generateProject_techStack ty an
    by (simp add: selectTechStack_def complexityOf_def)
  have wanted: "selectTechStack ''cli''
          \<lparr>complexity = Some ''simple'', analysisFeatures = [], estimatedFiles = 10,
           estimatedLines = 1000\<rparr>
      = \<lparr>frontend = None, backend = Some [''Node.js''], database = None,
         deployment = Some [''npm''], tools = Some [''Commander.js'', ''Yargs''],
         libraries = None\<rparr>"
    by (simp add: selectTechStack_def complexityOf_def cli)
  have creds: "manusApiUrl onlineEngine \<noteq> [] \<and> manusApiKey onlineEngine \<noteq> [] \<and>
      isl (analyzePost timeoutWorld (requirementWith ''cli'' []))"
    by (simp add: onlineEngine_def timeoutWorld_def)
  have medium:
    "complexity (analyzeRequirement onlineEngine timeoutWorld (requirementWith ''cli'' []))
       = Some ''medium''"
    by (simp add: an)
  have differ:
    "techStack (fst (generateProject onlineEngine timeoutWorld (requirementWith ''cli'' [])))
     \<noteq> selectTechStack ''cli''
          \<lparr>complexity = Some (estimateComplexity (requirementWith ''cli'' [])),
           analysisFeatures = [], estimatedFiles = 10, estimatedLines = 1000\<rparr>"
    unfolding est used wanted by (simp add: cli)
  from creds est medium differ show ?thesis by blast
qed

subsection \<open>Monetization ledger\<close>



subsection \<open>Scanner\<close>

lemma scanPatterns_acc:
  "foldl (\<lambda>errors pattern.
              case stringMatch w (regex pattern) source of
                None \<Rightarrow> errors
              | Some (firstMatch, _) \<Rightarrow>
                  errors @ [\<lparr>type = ty, severity = sev, line = None,
                             column = None, message = Pattern.message pattern,
                             code = firstMatch, suggestion = None\<rparr>])
           acc ps
   = acc @ concat (map (\<lambda>p. specFindings w source (ty, sev, p)) ps)"
  by (induction ps arbitrary: acc) (auto simp: specFindings_def split: option.splits)

lemma scanPatterns_spec:
  "scanPatterns w ty sev ps source = concat (map (\<lambda>p. specFindings w source (ty, sev, p)) ps)"
  unfolding scanPatterns_def scanPatterns_acc by simp

lemma scanCode_spec:
  "scanCode w source language = concat (map (specFindings w source) (specPatternTable language))"
  by (simp add: scanCode_def scanSyntaxErrors_def scanTypeErrors_def scanLogicErrors_def
      scanSecurityIssues_def scanPerformanceIssues_def scanPatterns_spec specPatternTable_def
      comp_def)

lemma specFindings_message:
  "e \<in> set (specFindings w source entry) \<Longrightarrow>
   CodeError.message e = Pattern.message (snd (snd entry))"
  by (auto simp: specFindings_def split: prod.splits option.splits)

lemma specFindings_length: "length (specFindings w source entry) \<le> 1"
  by (auto simp: specFindings_def split: prod.splits option.splits)

lemma filter_concat_keyed:
  assumes "distinct (map key xs)" and "x \<in> set xs"
      and "\<And>y e. e \<in> set (f y) \<Longrightarrow> tag e = key y"
  shows "filter (\<lambda>e. tag e = key x) (concat (map f xs)) = f x"
  using assms(1,2)
proof (induction xs)
  case Nil
  then show ?case by simp
next
  case (Cons y ys)
  show ?case
  proof (cases "x = y")
    case True
    have here: "filter (\<lambda>e. tag e = key x) (f y) = f y"
      using assms(3) True by (simp add: filter_id_conv)
    have other: "key z \<noteq> key x" if "z \<in> set ys" for z
    proof
      assume "key z = key x"
      then have "key y \<in> key ` set ys" using that True by (metis image_eqI)
      then show False using Cons.prems(1) by simp
    qed
    have "filter (\<lambda>e. tag e = key x) (f z) = []" if "z \<in> set ys" for z
      using other [OF that] assms(3) by (auto simp: filter_empty_conv)
    then have "filter (\<lambda>e. tag e = key x) (concat (map f ys)) = []"
      by (induction ys) auto
    then show ?thesis using here True by simp
  next
    case False
    then have "x \<in> set ys" using Cons.prems(2) by simp
    moreover have "key y \<noteq> key x" using Cons.prems(1) calculation by auto
    then have "filter (\<lambda>e. tag e = key x) (f y) = []"
      using assms(3) by (auto simp: filter_empty_conv)
    ultimately show ?thesis using Cons by simp
  qed
qed

lemma specPatternTable_distinct:
  "distinct (map (\<lambda>entry. Pattern.message (snd (snd entry))) (specPatternTable language))"
  by (cases "language = ''typescript''")
     (simp_all add: specPatternTable_def syntaxPatterns_def typePatterns_def logicPatterns_def
      securityPatterns_def performancePatterns_def)

text \<open>
  Claim C8. The scan is the concatenation, over the pattern table in its fixed order, of
  at most one finding per pattern: for every pattern of the table the findings carrying
  its message are exactly the pattern's own (none when the expression does not match,
  one with the pattern's category, severity, message and first match when it does,
  however many matches there are). The type patterns are part of the table only for
  the language \<^verbatim>\<open>typescript\<close>; for any other language no finding has the category
  \<^verbatim>\<open>type\<close>.
\<close>

theorem scanCode_one_finding_per_pattern:
  "scanCode w source language
     = concat (map (specFindings w source) (specPatternTable language)) \<and>
   (\<forall>entry \<in> set (specPatternTable language).
      filter (\<lambda>e. CodeError.message e = Pattern.message (snd (snd entry)))
        (scanCode w source language)
      = specFindings w source entry) \<and>
   (\<forall>entry. length (specFindings w source entry) \<le> 1) \<and>
   (language \<noteq> ''typescript'' \<longrightarrow>
      (\<forall>e \<in> set (scanCode w source language). CodeError.type e \<noteq> ''type'') \<and>
      scanTypeErrors w source language = []) \<and>
   (language = ''typescript'' \<longrightarrow>
      (\<forall>p \<in> set typePatterns. (''type'', ''medium'', p) \<in> set (specPatternTable language)))"
proof (intro conjI ballI allI impI)
  show "scanCode w source language
     = concat (map (specFindings w source) (specPatternTable language))"
    by (rule scanCode_spec)
next
  fix entry
  assume "entry \<in> set (specPatternTable language)"
  then show "filter (\<lambda>e. CodeError.message e = Pattern.message (snd (snd entry)))
        (scanCode w source language)
      = specFindings w source entry"
    unfolding scanCode_spec
    by (rule filter_concat_keyed [OF specPatternTable_distinct _ specFindings_message])
next
  fix entry
  show "length (specFindings w source entry) \<le> 1" by (rule specFindings_length)
next
  fix e
  assume "language \<noteq> ''typescript''" and "e \<in> set (scanCode w source language)"
  then show "CodeError.type e \<noteq> ''type''"
    unfolding scanCode_spec
    by (auto simp: specPatternTable_def specFindings_def split: option.splits)
next
  assume "language \<noteq> ''typescript''"
  then show "scanTypeErrors w source language = []" by (simp add: scanTypeErrors_def)
next
  fix p
  assume "language = ''typescript''" and "p \<in> set typePatterns"
  then show "(''type'', ''medium'', p) \<in> set (specPatternTable language)"
    by (simp add: specPatternTable_def)
qed

text \<open>
  The instance of C8 on the string \<^verbatim>\<open>eval(x)\<close> scanned as \<^verbatim>\<open>javascript\<close>.
\<close>

theorem scanCode_witness:
  "(''security'', ''critical'', \<lparr>regex = RxEval, message = ''eval() is dangerous''\<rparr>)
     \<in> set (specPatternTable ''javascript'') \<and>
   ''javascript'' \<noteq> ''typescript'' \<and>
   scanTypeErrors evalWorld ''eval(x)'' ''javascript'' = [] \<and>
   filter (\<lambda>e. CodeError.message e = ''eval() is dangerous'')
     (scanCode evalWorld ''eval(x)'' ''javascript'')
   = [\<lparr>type = ''security'', severity = ''critical'', line = None, column = None,
       message = ''eval() is dangerous'', code = ''eval('', suggestion = None\<rparr>]"
proof -
  let ?entry = "(''security'', ''critical'', \<lparr>regex = RxEval, message = ''eval() is dangerous''\<rparr>)"
  have member: "?entry \<in> set (specPatternTable ''javascript'')"
    by (simp add: specPatternTable_def securityPatterns_def)
  have other: "''javascript'' \<noteq> ''typescript''" by simp
  have found: "specFindings evalWorld ''eval(x)'' ?entry
      = [\<lparr>type = ''security'', severity = ''critical'', line = None, column = None,
          message = ''eval() is dangerous'', code = ''eval('', suggestion = None\<rparr>]"
    by (simp add: specFindings_def evalWorld_def evalMatch_def)
  note scan = scanCode_one_finding_per_pattern [of evalWorld "''eval(x)''" "''javascript''"]
  from scan member have
    "filter (\<lambda>e. CodeError.message e = Pattern.message (snd (snd ?entry)))
        (scanCode evalWorld ''eval(x)'' ''javascript'')
      = specFindings evalWorld ''eval(x)'' ?entry"
    by blast
  then have one: "filter (\<lambda>e. CodeError.message e = ''eval() is dangerous'')
     (scanCode evalWorld ''eval(x)'' ''javascript'')
   = [\<lparr>type = ''security'', severity = ''critical'', line = None, column = None,
       message = ''eval() is dangerous'', code = ''eval('', suggestion = None\<rparr>]"
    unfolding found by simp
  from scan other have none: "scanTypeErrors evalWorld ''eval(x)'' ''javascript'' = []"
    by blast
  from member other none one show ?thesis by blast
qed

subsection \<open>Healing\<close>








subsection \<open>The bounded stores\<close>










end
